theory Spec2Isabelle
  imports Main
begin

section \<open>Values and the process environment\<close>

text \<open>
  The helpers pass JavaScript values around: what a caller hands to \<open>storeToRedis\<close>,
  what \<open>serverError\<close> puts into a response, what a cache lookup hands to its callback.
  The values that have a JSON text are modelled; numbers are the integers and strings
  are byte strings. An object is the list of its members, in the order in which the
  language enumerates them.
\<close>

datatype json =
    JNull
  | JBool bool
  | JNum int
  | JStr string
  | JArr "json list"
  | JObj "(string \<times> json) list"

text \<open>
  \<open>process.env\<close>: a variable that is not set reads as \<open>undefined\<close>, here \<open>None\<close>.
\<close>

record process_env =
  NODE_ENV :: "string option"

text \<open>
  What a function throws. \<open>TypeError\<close> is what the language raises when a property is
  read from or written to \<open>undefined\<close>; \<open>SyntaxError\<close> is what \<open>new RegExp\<close> raises
  for a pattern that does not compile; \<open>Error\<close> is \<open>new Error(message)\<close>.
\<close>

datatype js_error = TypeError | SyntaxError | Error string

section \<open>JSON.stringify\<close>

text \<open>
  The language's \<open>JSON.stringify\<close> on the values above: decimal digits for a number
  (as the language prints the integers below \<open>1e21\<close>), a quoted string with the escapes of the standard (the quote, the backslash, the five
  named control characters, \<open>\u00xx\<close> for the other characters below 0x20), members
  and elements separated by commas with no white space.
\<close>

fun show_nat :: "nat \<Rightarrow> string" where
  "show_nat n =
     (if n < 10 then [char_of (48 + n)]
      else show_nat (n div 10) @ [char_of (48 + n mod 10)])"

definition show_int :: "int \<Rightarrow> string" where
  "show_int i = (if i < 0 then CHR ''-'' # show_nat (nat (- i)) else show_nat (nat i))"

definition hex_digit :: "nat \<Rightarrow> char" where
  "hex_digit n = (if n < 10 then char_of (48 + n) else char_of (87 + n))"

definition quote_char :: "char \<Rightarrow> string" where
  "quote_char c =
     (if c = CHR 0x22 then [CHR 0x5C, CHR 0x22]
      else if c = CHR 0x5C then [CHR 0x5C, CHR 0x5C]
      else if c = CHR 0x08 then [CHR 0x5C, CHR ''b'']
      else if c = CHR 0x0C then [CHR 0x5C, CHR ''f'']
      else if c = CHR 0x0A then [CHR 0x5C, CHR ''n'']
      else if c = CHR 0x0D then [CHR 0x5C, CHR ''r'']
      else if c = CHR 0x09 then [CHR 0x5C, CHR ''t'']
      else if (of_char c :: nat) < 32
        then [CHR 0x5C, CHR ''u'', CHR ''0'', CHR ''0'',
              hex_digit ((of_char c :: nat) div 16), hex_digit ((of_char c :: nat) mod 16)]
      else [c])"

definition quote_string :: "string \<Rightarrow> string" where
  "quote_string s = CHR 0x22 # concat (map quote_char s) @ [CHR 0x22]"

fun join :: "string \<Rightarrow> string list \<Rightarrow> string" where
  "join sep [] = []"
| "join sep [x] = x"
| "join sep (x # y # ys) = x @ sep @ join sep (y # ys)"

fun JSON_stringify :: "json \<Rightarrow> string"
  and stringify_elements :: "json list \<Rightarrow> string list"
  and stringify_members :: "(string \<times> json) list \<Rightarrow> string list"
where
  "JSON_stringify JNull = ''null''"
| "JSON_stringify (JBool b) = (if b then ''true'' else ''false'')"
| "JSON_stringify (JNum i) = show_int i"
| "JSON_stringify (JStr s) = quote_string s"
| "JSON_stringify (JArr xs) = ''['' @ join '','' (stringify_elements xs) @ '']''"
| "JSON_stringify (JObj kvs) = ''{'' @ join '','' (stringify_members kvs) @ ''}''"
| "stringify_elements [] = []"
| "stringify_elements (x # xs) = JSON_stringify x # stringify_elements xs"
| "stringify_members [] = []"
| "stringify_members ((k, v) # kvs) =
     (quote_string k @ '':'' @ JSON_stringify v) # stringify_members kvs"

section \<open>Responses\<close>

text \<open>
  \<open>res.status(code).json(object)\<close> fixes the status code of the response and hands
  it the object to send as its JSON body. A response is that pair; one that is ended
  without a body has the body \<open>None\<close>.
\<close>

record response =
  status :: nat
  body :: "json option"

text \<open>
  \<open>serverError(res, error)\<close>: status 500; the message is a fixed sentence when
  \<open>NODE_ENV\<close> is \<open>production\<close>, and the error given otherwise.
\<close>

definition serverError :: "process_env \<Rightarrow> json \<Rightarrow> response" where
  "serverError env error =
     \<lparr>status = 500,
      body = Some (JObj
        [(''status'', JStr ''error''),
         (''message'',
            if NODE_ENV env = Some ''production''
            then JStr ''Your request could not be processed at this time. Kindly try again later.''
            else error)])\<rparr>"

text \<open>The member of an object, as \<open>object.key\<close> reads it; \<open>None\<close> is \<open>undefined\<close>.\<close>

definition member :: "json \<Rightarrow> string \<Rightarrow> json option" where
  "member v k = (case v of JObj kvs \<Rightarrow> map_of kvs k | _ \<Rightarrow> None)"

definition body_member :: "response \<Rightarrow> string \<Rightarrow> json option" where
  "body_member res k = (case body res of None \<Rightarrow> None | Some v \<Rightarrow> member v k)"

section \<open>The cache helpers\<close>

text \<open>
  Modelled from the spec: the cache client \<open>redisClient\<close> comes from \<open>config/redis\<close>,
  which is not among the sources. The spec's cache entry is a string key, a textual value
  and a time to live in seconds; an entry is created by a store, expires once its time to
  live has elapsed, and can be removed before. The state holds, for each key, the text
  and the instant at which it expires, the clock in seconds, and the fault the client
  reports while the backend cannot be reached (\<open>None\<close> while it can).
\<close>

record redis =
  entries :: "string \<rightharpoonup> (string \<times> nat)"
  now :: nat
  fault :: "string option"

text \<open>
  Modelled from the spec: \<open>redisClient.setex(key, seconds, text)\<close> writes the entry,
  replacing one under the same key and starting its time to live afresh.
\<close>

definition redis_setex :: "redis \<Rightarrow> string \<Rightarrow> nat \<Rightarrow> string \<Rightarrow> redis" where
  "redis_setex rs key seconds text =
     (if fault rs = None
      then rs\<lparr>entries := (entries rs)(key \<mapsto> (text, now rs + seconds))\<rparr>
      else rs)"

text \<open>Modelled from the spec: \<open>redisClient.del(key)\<close> removes the entry at once.\<close>

definition redis_del :: "redis \<Rightarrow> string \<Rightarrow> redis" where
  "redis_del rs key =
     (if fault rs = None then rs\<lparr>entries := (entries rs)(key := None)\<rparr> else rs)"

text \<open>
  Modelled from the spec: \<open>redisClient.get(key, reply)\<close> calls \<open>reply(error, result)\<close>.
  The pair is \<open>(error, result)\<close>: the fault and no result while the backend cannot be
  reached; otherwise no error, and the text of a live entry or \<open>null\<close> (here \<open>None\<close>)
  when the key has no entry or its entry has expired.
\<close>

definition redis_get :: "redis \<Rightarrow> string \<Rightarrow> string option \<times> string option" where
  "redis_get rs key =
     (case fault rs of
        Some e \<Rightarrow> (Some e, None)
      | None \<Rightarrow>
          (None,
           case entries rs key of
             None \<Rightarrow> None
           | Some (text, expiry) \<Rightarrow> if now rs < expiry then Some text else None))"

text \<open>Modelled from the spec: \<open>d\<close> seconds pass.\<close>

definition elapse :: "nat \<Rightarrow> redis \<Rightarrow> redis" where
  "elapse d rs = rs\<lparr>now := now rs + d\<rparr>"

text \<open>
  \<open>storeToRedis(key, values, timeout = 3600)\<close>: the default stands in when the caller
  passes no timeout (\<open>None\<close>).
\<close>

definition storeToRedis :: "redis \<Rightarrow> string \<Rightarrow> json \<Rightarrow> nat option \<Rightarrow> redis" where
  "storeToRedis rs key values timeout =
     redis_setex rs key (case timeout of None \<Rightarrow> 3600 | Some t \<Rightarrow> t) (JSON_stringify values)"

definition removeFromRedis :: "redis \<Rightarrow> string \<Rightarrow> redis" where
  "removeFromRedis rs key = redis_del rs key"

text \<open>
  The function \<open>getFromRedis\<close> hands to \<open>redisClient.get\<close>:
  \<open>(error, result) => { if (error) throw new Error(error); return callback(result); }\<close>.
  The throw is the left injection. The result reaches the callback as the client gave
  it: a string or \<open>null\<close>.
\<close>

definition getFromRedis_reply ::
  "(json \<Rightarrow> 'a) \<Rightarrow> string option \<Rightarrow> string option \<Rightarrow> js_error + 'a" where
  "getFromRedis_reply callback error result =
     (case error of
        Some e \<Rightarrow> Inl (Error e)
      | None \<Rightarrow> Inr (callback (case result of None \<Rightarrow> JNull | Some text \<Rightarrow> JStr text)))"

definition getFromRedis :: "redis \<Rightarrow> string \<Rightarrow> (json \<Rightarrow> 'a) \<Rightarrow> js_error + 'a" where
  "getFromRedis rs key callback =
     (case redis_get rs key of (error, result) \<Rightarrow> getFromRedis_reply callback error result)"

section \<open>The request user\<close>

text \<open>
  An Express request carries the user in one of two places: the field \<open>req.user\<close>, or
  the field \<open>user\<close> of the session object \<open>req.session\<close>. A field that was never set
  reads as \<open>undefined\<close>, here \<open>None\<close>; so does \<open>req.session\<close> on a request that has no
  session object. The other fields of the session and of the request are the records'
  extensions.
\<close>

record 'u session =
  user :: "'u option"

record ('u, 's) req =
  http_method :: string
  path :: string
  user :: "'u option"
  session :: "('u, 's) session_scheme option"

text \<open>
  \<open>getRequestUser(req)\<close>: \<open>req.user\<close> when \<open>NODE_ENV\<close> is \<open>test\<close>, \<open>req.session.user\<close>
  otherwise. Reading \<open>user\<close> from a session that is \<open>undefined\<close> throws.
\<close>

definition getRequestUser ::
  "process_env \<Rightarrow> ('u, 's, 'r) req_scheme \<Rightarrow> js_error + 'u option" where
  "getRequestUser env req =
     (if NODE_ENV env = Some ''test'' then Inr (req.user req)
      else (case session req of
              None \<Rightarrow> Inl TypeError
            | Some s \<Rightarrow> Inr (session.user s)))"

text \<open>
  \<open>setRequestUser(req, userObject)\<close> assigns to the same place. The result is the pair
  of what the call evaluates to (the value assigned, or the throw) and the request after
  the call.
\<close>

definition setRequestUser ::
  "process_env \<Rightarrow> ('u, 's, 'r) req_scheme \<Rightarrow> 'u option
     \<Rightarrow> (js_error + 'u option) \<times> ('u, 's, 'r) req_scheme" where
  "setRequestUser env req userObject =
     (if NODE_ENV env = Some ''test''
      then (Inr userObject, req\<lparr>req.user := userObject\<rparr>)
      else (case session req of
              None \<Rightarrow> (Inl TypeError, req)
            | Some s \<Rightarrow>
                (Inr userObject,
                 req\<lparr>session := Some (s\<lparr>session.user := userObject\<rparr>)\<rparr>)))"

section \<open>The application's layers\<close>

text \<open>
  Express keeps what \<open>app.use\<close> and \<open>app.all\<close> register in one stack and offers a
  request to each layer in the order of registration. A middleware either ends the
  request with a response (its own, or the framework's when it fails) or calls
  \<open>next()\<close>, handing on the request, which it may have changed. A layer registered with
  \<open>app.use(prefix, ...)\<close> is offered the requests whose path lies under the prefix. The
  application registers one route, \<open>app.all('*', handler)\<close>: it takes every method.
\<close>

datatype 'r outcome = Next 'r | Reply response

datatype 'r layer =
    App_use string "'r \<Rightarrow> 'r outcome"
  | App_all_star "'r \<Rightarrow> response"

text \<open>
  What becomes of a request in a stack: a layer answers it; or a layer fails and
  Express's final handler answers with the status of the error and a page of its own;
  or the request comes out of the stack as the last middleware handed it on, and the
  final handler answers 404.
\<close>

datatype 'r handled = Answered response | Failed nat | Unhandled 'r

text \<open>
  Express compares a mount path with the start of the request's path without regard to
  the case of letters, and up to the end of a path segment; the mount path \<open>/\<close> of
  \<open>app.use(middleware)\<close> takes every request.
\<close>

definition lower_char :: "char \<Rightarrow> char" where
  "lower_char c =
     (if 65 \<le> (of_char c :: nat) \<and> (of_char c :: nat) \<le> 90
      then char_of ((of_char c :: nat) + 32) else c)"

definition mounted_at :: "string \<Rightarrow> string \<Rightarrow> bool" where
  "mounted_at prefix p =
     (prefix = ''/''
      \<or> (map lower_char (take (length prefix) p) = map lower_char prefix
         \<and> (take 1 (drop (length prefix) p) = [] \<or> take 1 (drop (length prefix) p) = ''/'')))"

text \<open>
  The route \<open>*\<close> matches every path, and Express keeps the matched path as a parameter
  of the route, decoded with \<open>decodeURIComponent\<close>. The decoding fails, and the layer
  with it (status 400), on a path with a malformed escape: a percent sign that is not
  followed by two hexadecimal digits, or escaped octets that are not the UTF-8 encoding
  of a code point. \<open>decodable\<close> is the language's check: an escaped octet below 0x80
  stands alone; one with two, three or four leading one bits opens a sequence of as many
  escaped octets, which must be well-formed UTF-8 (no overlong form, no surrogate,
  nothing above U+10FFFF); any other octet is refused.
\<close>

definition hex_value :: "char \<Rightarrow> nat option" where
  "hex_value c =
     (if 48 \<le> (of_char c :: nat) \<and> (of_char c :: nat) \<le> 57
        then Some ((of_char c :: nat) - 48)
      else if 65 \<le> (of_char c :: nat) \<and> (of_char c :: nat) \<le> 70
        then Some ((of_char c :: nat) - 55)
      else if 97 \<le> (of_char c :: nat) \<and> (of_char c :: nat) \<le> 102
        then Some ((of_char c :: nat) - 87)
      else None)"

fun hex_octet :: "string \<Rightarrow> nat option" where
  "hex_octet (h # l # rest) =
     (case hex_value h of
        None \<Rightarrow> None
      | Some a \<Rightarrow> (case hex_value l of None \<Rightarrow> None | Some b \<Rightarrow> Some (16 * a + b)))"
| "hex_octet s = None"

fun escaped_octets :: "nat \<Rightarrow> string \<Rightarrow> nat list option" where
  "escaped_octets 0 s = Some []"
| "escaped_octets (Suc n) [] = None"
| "escaped_octets (Suc n) (c # cs) =
     (if c = CHR ''%''
      then (case hex_octet cs of
              None \<Rightarrow> None
            | Some b \<Rightarrow>
                (case escaped_octets n (drop 2 cs) of
                   None \<Rightarrow> None
                 | Some bs \<Rightarrow> Some (b # bs)))
      else None)"

definition leading_ones :: "nat \<Rightarrow> nat" where
  "leading_ones b =
     (if b < 128 then 0 else if b < 192 then 1 else if b < 224 then 2
      else if b < 240 then 3 else if b < 248 then 4 else 5)"

definition continuation :: "nat \<Rightarrow> bool" where
  "continuation b = (128 \<le> b \<and> b < 192)"

fun valid_utf8 :: "nat list \<Rightarrow> bool" where
  "valid_utf8 [b0, b1] = (194 \<le> b0 \<and> b0 \<le> 223 \<and> continuation b1)"
| "valid_utf8 [b0, b1, b2] =
     ((b0 = 224 \<and> 160 \<le> b1 \<and> b1 < 192
       \<or> 225 \<le> b0 \<and> b0 \<le> 236 \<and> continuation b1
       \<or> b0 = 237 \<and> 128 \<le> b1 \<and> b1 < 160
       \<or> 238 \<le> b0 \<and> b0 \<le> 239 \<and> continuation b1)
      \<and> continuation b2)"
| "valid_utf8 [b0, b1, b2, b3] =
     ((b0 = 240 \<and> 144 \<le> b1 \<and> b1 < 192
       \<or> 241 \<le> b0 \<and> b0 \<le> 243 \<and> continuation b1
       \<or> b0 = 244 \<and> 128 \<le> b1 \<and> b1 < 144)
      \<and> continuation b2 \<and> continuation b3)"
| "valid_utf8 bs = False"

function decodable :: "string \<Rightarrow> bool" where
  "decodable [] = True"
| "decodable (c # cs) =
     (if c \<noteq> CHR ''%'' then decodable cs
      else (case hex_octet cs of
              None \<Rightarrow> False
            | Some b \<Rightarrow>
                if leading_ones b = 0 then decodable (drop 2 cs)
                else if leading_ones b = 1 \<or> 4 < leading_ones b then False
                else (case escaped_octets (leading_ones b - 1) (drop 2 cs) of
                        None \<Rightarrow> False
                      | Some bs \<Rightarrow>
                          valid_utf8 (b # bs)
                          \<and> decodable (drop (2 + 3 * (leading_ones b - 1)) cs))))"
  by pat_completeness auto
termination
  by (relation "measure length") auto

text \<open>
  \<open>res.json\<close> sends through \<open>res.send\<close>, which ends the response to a \<open>HEAD\<close> request
  without the body.
\<close>

definition sent :: "('u, 's, 'r) req_scheme \<Rightarrow> response \<Rightarrow> response" where
  "sent req res = (if http_method req = ''HEAD'' then res\<lparr>body := None\<rparr> else res)"

fun dispatch ::
  "('u, 's, 'r) req_scheme layer list \<Rightarrow> ('u, 's, 'r) req_scheme
     \<Rightarrow> ('u, 's, 'r) req_scheme handled" where
  "dispatch [] req = Unhandled req"
| "dispatch (App_use prefix middleware # stack) req =
     (if mounted_at prefix (path req)
      then (case middleware req of
              Reply res \<Rightarrow> Answered res
            | Next req' \<Rightarrow> dispatch stack req')
      else dispatch stack req)"
| "dispatch (App_all_star handler # stack) req =
     (if decodable (path req) then Answered (sent req (handler req)) else Failed 400)"

text \<open>
  The middleware of the packages \<open>cors\<close>, \<open>morgan\<close> and \<open>express\<close>, and the router of
  the module \<open>routes\<close>, are not among the sources: they are parameters.
\<close>

record 'r packages =
  cors :: "'r \<Rightarrow> 'r outcome"
  morgan :: "'r \<Rightarrow> 'r outcome"
  express_urlencoded :: "'r \<Rightarrow> 'r outcome"
  express_json :: "'r \<Rightarrow> 'r outcome"
  router :: "'r \<Rightarrow> 'r outcome"

text \<open>
  The handler registered last, for the routes that are not available: what it hands to
  \<open>res.status(405).json\<close>.
\<close>

definition unavailable_route :: "'r \<Rightarrow> response" where
  "unavailable_route req =
     \<lparr>status = 405, body = Some (JObj [(''error'', JStr ''Method not allowed'')])\<rparr>"

text \<open>
  The stack of \<open>app\<close>, in the order of the registrations; \<open>morgan\<close> is registered only
  when \<open>NODE_ENV\<close> is \<open>development\<close>.
\<close>

definition app :: "process_env \<Rightarrow> 'r packages \<Rightarrow> 'r layer list" where
  "app env pkg =
     [App_use ''/'' (cors pkg)]
     @ (if NODE_ENV env = Some ''development'' then [App_use ''/'' (morgan pkg)] else [])
     @ [App_use ''/'' (express_urlencoded pkg),
        App_use ''/'' (express_json pkg),
        App_use ''/api/v1'' (router pkg),
        App_all_star unavailable_route]"

section \<open>Record lookups\<close>



















declare show_nat.simps [simp del]

lemmas cache_defs =
  redis_setex_def redis_del_def redis_get_def elapse_def storeToRedis_def
  removeFromRedis_def getFromRedis_reply_def getFromRedis_def

section \<open>The cache: what a lookup delivers\<close>

lemma length_quote_chars: "length s \<le> length (concat (map quote_char s))"
proof (induction s)
  case Nil
  then show ?case by simp
next
  case (Cons c s)
  have "1 \<le> length (quote_char c)" by (simp add: quote_char_def)
  with Cons show ?case by simp
qed

lemma quote_string_longer: "length s < length (quote_string s)"
  using length_quote_chars [of s] by (simp add: quote_string_def)

text \<open>The text of a value is never the value: the text of a string is longer than it.\<close>

lemma stringify_is_not_the_value: "JStr (JSON_stringify V) \<noteq> V"
proof
  assume "JStr (JSON_stringify V) = V"
  then have "JSON_stringify V = quote_string (JSON_stringify V)"
    by (metis JSON_stringify.simps(4))
  with quote_string_longer [of "JSON_stringify V"] show False by simp
qed

text \<open>
  C4, as amended. While the backend can be reached: for every key \<open>K\<close> and value \<open>V\<close>,
  \<open>getFromRedis(K, cb)\<close> after \<open>storeToRedis(K, V, ttl)\<close>, fewer than \<open>ttl\<close> seconds
  later (fewer than 3600 when no timeout was passed), hands the callback the JSON text
  of \<open>V\<close>, the string \<open>JSON.stringify(V)\<close>, which is not \<open>V\<close>; decoding is left to the
  callback. After \<open>removeFromRedis(K)\<close> it hands the callback \<open>null\<close>, whatever time
  to live was left and however much time has passed.
\<close>

theorem cache_roundtrip:
  "fault rs = None \<longrightarrow>
     (d < ttl \<longrightarrow>
        getFromRedis (elapse d (storeToRedis rs K V (Some ttl))) K cb
          = Inr (cb (JStr (JSON_stringify V))))
     \<and> (d < 3600 \<longrightarrow>
        getFromRedis (elapse d (storeToRedis rs K V None)) K cb
          = Inr (cb (JStr (JSON_stringify V))))
     \<and> JStr (JSON_stringify V) \<noteq> V
     \<and> getFromRedis (elapse d' (removeFromRedis (elapse d (storeToRedis rs K V timeout)) K)) K cb
          = Inr (cb JNull)"
  using stringify_is_not_the_value [of V] by (simp add: cache_defs)

text \<open>
  The spec's scenario: \<open>{name: "Ama"}\<close> stored under \<open>user:42\<close> for one second and
  looked up at once, with the callback that returns what it is given.
\<close>

theorem cache_roundtrip_witness:
  "fault \<lparr>entries = Map.empty, now = 100, fault = None\<rparr> = None
   \<and> (0::nat) < 1
   \<and> getFromRedis
        (elapse 0 (storeToRedis \<lparr>entries = Map.empty, now = 100, fault = None\<rparr> ''user:42''
           (JObj [(''name'', JStr ''Ama'')]) (Some 1)))
        ''user:42'' (\<lambda>v. v)
       = Inr (JStr ''{\"name\":\"Ama\"}'')
   \<and> (0::nat) < 3600
   \<and> getFromRedis
        (elapse 0 (storeToRedis \<lparr>entries = Map.empty, now = 100, fault = None\<rparr> ''user:42''
           (JObj [(''name'', JStr ''Ama'')]) None))
        ''user:42'' (\<lambda>v. v)
       = Inr (JStr ''{\"name\":\"Ama\"}'')
   \<and> getFromRedis
        (elapse 0 (removeFromRedis
           (elapse 0 (storeToRedis \<lparr>entries = Map.empty, now = 100, fault = None\<rparr> ''user:42''
              (JObj [(''name'', JStr ''Ama'')]) (Some 1)))
           ''user:42''))
        ''user:42'' (\<lambda>v. v)
       = Inr JNull"
  using cache_roundtrip
    [where rs = "\<lparr>entries = Map.empty, now = 100, fault = None\<rparr>" and d = 0 and ttl = 1
       and K = "''user:42''" and V = "JObj [(''name'', JStr ''Ama'')]" and cb = "\<lambda>v. v"
       and d' = 0 and timeout = "Some 1"]
  by (simp add: cache_defs quote_string_def quote_char_def)

text \<open>
  The claim as it was stated, that the callback is handed \<open>V\<close>, fails in that scenario:
  the callback is handed a string where an object was stored.
\<close>

theorem cache_delivers_text_counterexample:
  "getFromRedis
     (storeToRedis \<lparr>entries = Map.empty, now = 100, fault = None\<rparr> ''user:42''
        (JObj [(''name'', JStr ''Ama'')]) (Some 1))
     ''user:42'' (\<lambda>v. v)
   = Inr (JStr ''{\"name\":\"Ama\"}'')
   \<and> JStr ''{\"name\":\"Ama\"}'' \<noteq> JObj [(''name'', JStr ''Ama'')]"
  by (simp add: cache_defs quote_string_def quote_char_def)

section \<open>The cache: a miss and a fault\<close>

text \<open>
  C5. For every key \<open>K\<close>, a lookup of a key that has no entry, or whose entry has
  expired, hands the callback \<open>null\<close> and returns what the callback returns: nothing is
  thrown. While the backend cannot be reached the lookup throws an error that carries
  the client's fault and never calls the callback; no lookup on a backend that can be
  reached, hit or miss, has that outcome.
\<close>

theorem cache_miss_and_fault:
  "(fault rs = None \<and> entries rs K = None \<longrightarrow> getFromRedis rs K cb = Inr (cb JNull))
   \<and> (fault rs = None \<and> entries rs K = Some (stored, expiry) \<and> expiry \<le> now rs \<longrightarrow>
        getFromRedis rs K cb = Inr (cb JNull))
   \<and> (fault rs = Some e \<longrightarrow>
        getFromRedis rs K cb = Inl (Error e)
        \<and> (\<forall>rs'. fault rs' = None \<longrightarrow> getFromRedis rs' K cb \<noteq> getFromRedis rs K cb))"
  by (auto simp: cache_defs split: option.splits)

theorem cache_miss_and_fault_witness:
  "fault \<lparr>entries = Map.empty, now = 100, fault = None\<rparr> = None
   \<and> entries \<lparr>entries = Map.empty, now = 100, fault = None\<rparr> ''user:42'' = None
   \<and> getFromRedis \<lparr>entries = Map.empty, now = 100, fault = None\<rparr> ''user:42'' (\<lambda>v. v) = Inr JNull
   \<and> fault \<lparr>entries = [''user:42'' \<mapsto> (''1'', 60)], now = 100, fault = None\<rparr> = None
   \<and> entries \<lparr>entries = [''user:42'' \<mapsto> (''1'', 60)], now = 100, fault = None\<rparr> ''user:42''
        = Some (''1'', 60)
   \<and> (60::nat) \<le> now \<lparr>entries = [''user:42'' \<mapsto> (''1'', 60)], now = 100, fault = None\<rparr>
   \<and> getFromRedis \<lparr>entries = [''user:42'' \<mapsto> (''1'', 60)], now = 100, fault = None\<rparr>
         ''user:42'' (\<lambda>v. v) = Inr JNull
   \<and> fault \<lparr>entries = Map.empty, now = 100, fault = Some ''ECONNREFUSED''\<rparr> = Some ''ECONNREFUSED''
   \<and> getFromRedis \<lparr>entries = Map.empty, now = 100, fault = Some ''ECONNREFUSED''\<rparr> ''user:42'' (\<lambda>v. v)
        = Inl (Error ''ECONNREFUSED'')
   \<and> getFromRedis \<lparr>entries = Map.empty, now = 100, fault = None\<rparr> ''user:42'' (\<lambda>v. v)
        \<noteq> getFromRedis \<lparr>entries = Map.empty, now = 100, fault = Some ''ECONNREFUSED''\<rparr> ''user:42''
            (\<lambda>v. v)"
  using cache_miss_and_fault
      [where rs = "\<lparr>entries = Map.empty, now = 100, fault = None\<rparr>" and K = "''user:42''"
         and cb = "\<lambda>v. v"]
    cache_miss_and_fault
      [where rs = "\<lparr>entries = [''user:42'' \<mapsto> (''1'', 60)], now = 100, fault = None\<rparr>"
         and K = "''user:42''" and cb = "\<lambda>v. v" and stored = "''1''" and expiry = 60]
    cache_miss_and_fault
      [where rs = "\<lparr>entries = Map.empty, now = 100, fault = Some ''ECONNREFUSED''\<rparr>"
         and K = "''user:42''" and cb = "\<lambda>v. v" and e = "''ECONNREFUSED''"]
  by (simp add: cache_defs)

section \<open>The request user: reading back what was written\<close>

text \<open>
  C6, as amended. In test mode for every request, and in every other mode for every
  request that carries a session object: \<open>setRequestUser(r, u)\<close> does not throw, and
  \<open>getRequestUser(r)\<close> after it returns \<open>u\<close>. \<open>getRequestUser(r)\<close> returns
  \<open>undefined\<close> when the place the mode reads holds no user: \<open>r.user\<close> in test mode,
  \<open>r.session.user\<close> of the session object otherwise.
\<close>

theorem request_user_roundtrip:
  "(NODE_ENV env = Some ''test'' \<or> session req \<noteq> None \<longrightarrow>
      fst (setRequestUser env req u) = Inr u
      \<and> getRequestUser env (snd (setRequestUser env req u)) = Inr u)
   \<and> (NODE_ENV env = Some ''test'' \<and> req.user req = None \<longrightarrow>
        getRequestUser env req = Inr None)
   \<and> (NODE_ENV env \<noteq> Some ''test'' \<and> session req = Some s \<and> session.user s = None \<longrightarrow>
        getRequestUser env req = Inr None)"
  by (auto simp: getRequestUser_def setRequestUser_def split: option.splits)

theorem request_user_roundtrip_witness:
  "NODE_ENV \<lparr>NODE_ENV = Some ''test''\<rparr> = Some ''test''
   \<and> fst (setRequestUser \<lparr>NODE_ENV = Some ''test''\<rparr>
             \<lparr>http_method = ''GET'', path = ''/api/v1/fixtures'', user = None,
               session = None :: (string, unit) session_scheme option\<rparr> (Some ''ama''))
        = Inr (Some ''ama'')
   \<and> getRequestUser \<lparr>NODE_ENV = Some ''test''\<rparr>
        (snd (setRequestUser \<lparr>NODE_ENV = Some ''test''\<rparr>
               \<lparr>http_method = ''GET'', path = ''/api/v1/fixtures'', user = None,
                 session = None :: (string, unit) session_scheme option\<rparr> (Some ''ama'')))
        = Inr (Some ''ama'')
   \<and> getRequestUser \<lparr>NODE_ENV = Some ''test''\<rparr>
        \<lparr>http_method = ''GET'', path = ''/api/v1/fixtures'', user = None :: string option,
          session = None :: (string, unit) session_scheme option\<rparr>
        = Inr None
   \<and> NODE_ENV \<lparr>NODE_ENV = Some ''production''\<rparr> \<noteq> Some ''test''
   \<and> session \<lparr>http_method = ''GET'', path = ''/api/v1/fixtures'', user = None,
                session = Some \<lparr>session.user = None :: string option\<rparr>\<rparr>
        \<noteq> None
   \<and> fst (setRequestUser \<lparr>NODE_ENV = Some ''production''\<rparr>
             \<lparr>http_method = ''GET'', path = ''/api/v1/fixtures'', user = None,
               session = Some \<lparr>session.user = None\<rparr>\<rparr> (Some ''ama''))
        = Inr (Some ''ama'')
   \<and> getRequestUser \<lparr>NODE_ENV = Some ''production''\<rparr>
        (snd (setRequestUser \<lparr>NODE_ENV = Some ''production''\<rparr>
               \<lparr>http_method = ''GET'', path = ''/api/v1/fixtures'', user = None,
                 session = Some \<lparr>session.user = None\<rparr>\<rparr> (Some ''ama'')))
        = Inr (Some ''ama'')
   \<and> getRequestUser \<lparr>NODE_ENV = Some ''production''\<rparr>
        \<lparr>http_method = ''GET'', path = ''/api/v1/fixtures'', user = None :: string option,
          session = Some \<lparr>session.user = None :: string option\<rparr>\<rparr>
        = Inr None"
  using request_user_roundtrip
      [where env = "\<lparr>NODE_ENV = Some ''test''\<rparr>"
         and req = "\<lparr>http_method = ''GET'', path = ''/api/v1/fixtures'', user = None,
                       session = None :: (string, unit) session_scheme option\<rparr>"
         and u = "Some ''ama''" and s = "\<lparr>session.user = None\<rparr>"]
    request_user_roundtrip
      [where env = "\<lparr>NODE_ENV = Some ''production''\<rparr>"
         and req = "\<lparr>http_method = ''GET'', path = ''/api/v1/fixtures'', user = None,
                       session = Some \<lparr>session.user = None\<rparr>\<rparr>"
         and u = "Some ''ama''" and s = "\<lparr>session.user = None\<rparr>"]
  by (simp add: getRequestUser_def setRequestUser_def)

text \<open>
  The claim as it was stated, for every request in either mode, fails outside test mode
  on a request that has no session object: the write throws and leaves the request as
  it was, and the read throws where the claim has it return \<open>undefined\<close>.
\<close>

theorem request_without_session_counterexample:
  "setRequestUser \<lparr>NODE_ENV = Some ''production''\<rparr>
     \<lparr>http_method = ''GET'', path = ''/api/v1/fixtures'', user = None,
       session = None :: (string, unit) session_scheme option\<rparr> (Some ''ama'')
     = (Inl TypeError,
        \<lparr>http_method = ''GET'', path = ''/api/v1/fixtures'', user = None, session = None\<rparr>)
   \<and> getRequestUser \<lparr>NODE_ENV = Some ''production''\<rparr>
        \<lparr>http_method = ''GET'', path = ''/api/v1/fixtures'', user = None :: string option,
          session = None :: (string, unit) session_scheme option\<rparr>
     = Inl TypeError"
  by (simp add: getRequestUser_def setRequestUser_def)

section \<open>The request user: what a call leaves alone\<close>

text \<open>
  C10. For every request \<open>r\<close>: in test mode \<open>setRequestUser(r, u)\<close> changes the field
  \<open>r.user\<close> and nothing else, so \<open>r.session\<close> is as it was, and neither the read nor
  the outcome of the write depends on \<open>r.session\<close>. In every other mode
  \<open>setRequestUser(r, u)\<close> changes the field \<open>user\<close> of the session object and nothing
  else (and nothing at all on a request without a session object), so \<open>r.user\<close> is as
  it was, and neither the read nor the outcome of the write depends on \<open>r.user\<close>.
\<close>

theorem request_user_frame:
  "(NODE_ENV env = Some ''test'' \<longrightarrow>
      snd (setRequestUser env req u) = req\<lparr>req.user := u\<rparr>
      \<and> session (snd (setRequestUser env req u)) = session req
      \<and> getRequestUser env (req\<lparr>session := s'\<rparr>) = getRequestUser env req
      \<and> fst (setRequestUser env (req\<lparr>session := s'\<rparr>) u) = fst (setRequestUser env req u))
   \<and> (NODE_ENV env \<noteq> Some ''test'' \<longrightarrow>
      snd (setRequestUser env req u)
        = req\<lparr>session := map_option (\<lambda>s. s\<lparr>session.user := u\<rparr>) (session req)\<rparr>
      \<and> req.user (snd (setRequestUser env req u)) = req.user req
      \<and> getRequestUser env (req\<lparr>req.user := u'\<rparr>) = getRequestUser env req
      \<and> fst (setRequestUser env (req\<lparr>req.user := u'\<rparr>) u) = fst (setRequestUser env req u))"
  by (auto simp: getRequestUser_def setRequestUser_def split: option.splits)

text \<open>
  A request that carries the user \<open>kofi\<close> in both places, written to in test mode and
  in production.
\<close>

theorem request_user_frame_witness:
  "NODE_ENV \<lparr>NODE_ENV = Some ''test''\<rparr> = Some ''test''
   \<and> snd (setRequestUser \<lparr>NODE_ENV = Some ''test''\<rparr>
        \<lparr>http_method = ''GET'', path = ''/api/v1/fixtures'', user = Some ''kofi'',
          session = Some \<lparr>session.user = Some ''kofi''\<rparr>\<rparr> (Some ''ama''))
       = \<lparr>http_method = ''GET'', path = ''/api/v1/fixtures'', user = Some ''ama'',
           session = Some \<lparr>session.user = Some ''kofi''\<rparr>\<rparr>
   \<and> getRequestUser \<lparr>NODE_ENV = Some ''test''\<rparr>
        \<lparr>http_method = ''GET'', path = ''/api/v1/fixtures'', user = Some ''kofi'',
          session = None :: (string, unit) session_scheme option\<rparr>
       = getRequestUser \<lparr>NODE_ENV = Some ''test''\<rparr>
          \<lparr>http_method = ''GET'', path = ''/api/v1/fixtures'', user = Some ''kofi'',
            session = Some \<lparr>session.user = Some ''kofi''\<rparr>\<rparr>
   \<and> NODE_ENV \<lparr>NODE_ENV = Some ''production''\<rparr> \<noteq> Some ''test''
   \<and> snd (setRequestUser \<lparr>NODE_ENV = Some ''production''\<rparr>
        \<lparr>http_method = ''GET'', path = ''/api/v1/fixtures'', user = Some ''kofi'',
          session = Some \<lparr>session.user = Some ''kofi''\<rparr>\<rparr> (Some ''ama''))
       = \<lparr>http_method = ''GET'', path = ''/api/v1/fixtures'', user = Some ''kofi'',
           session = Some \<lparr>session.user = Some ''ama''\<rparr>\<rparr>
   \<and> getRequestUser \<lparr>NODE_ENV = Some ''production''\<rparr>
        \<lparr>http_method = ''GET'', path = ''/api/v1/fixtures'', user = None,
          session = Some \<lparr>session.user = Some ''kofi''\<rparr>\<rparr>
       = getRequestUser \<lparr>NODE_ENV = Some ''production''\<rparr>
          \<lparr>http_method = ''GET'', path = ''/api/v1/fixtures'', user = Some ''kofi'',
            session = Some \<lparr>session.user = Some ''kofi''\<rparr>\<rparr>"
  using request_user_frame
      [where env = "\<lparr>NODE_ENV = Some ''test''\<rparr>"
         and req = "\<lparr>http_method = ''GET'', path = ''/api/v1/fixtures'', user = Some ''kofi'',
                       session = Some \<lparr>session.user = Some ''kofi''\<rparr>\<rparr>"
         and u = "Some ''ama''" and s' = None and u' = None]
    request_user_frame
      [where env = "\<lparr>NODE_ENV = Some ''production''\<rparr>"
         and req = "\<lparr>http_method = ''GET'', path = ''/api/v1/fixtures'', user = Some ''kofi'',
                       session = Some \<lparr>session.user = Some ''kofi''\<rparr>\<rparr>"
         and u = "Some ''ama''" and s' = None and u' = None]
  by (simp add: getRequestUser_def setRequestUser_def)

section \<open>Requests that no layer answers\<close>

lemma dispatch_append:
  "dispatch (front @ back) req =
     (case dispatch front req of
        Unhandled req' \<Rightarrow> dispatch back req'
      | Answered res \<Rightarrow> Answered res
      | Failed code \<Rightarrow> Failed code)"
proof (induction front arbitrary: req)
  case Nil
  then show ?case by simp
next
  case (Cons l front)
  then show ?case
    by (cases l) (simp_all split: outcome.splits)
qed

lemma app_butlast: "app env pkg = butlast (app env pkg) @ [App_all_star unavailable_route]"
  by (simp add: app_def)

text \<open>
  C7, as amended. For every request that none of the layers registered ahead of the
  last one answers (\<open>cors\<close>, \<open>morgan\<close> and the body parsers hand it on, and the router
  mounted at \<open>/api/v1\<close> has no route that answers it) and whose path, as it reaches the
  last layer, has no malformed percent escape, the application responds with status
  405; the body is \<open>{"error":"Method not allowed"}\<close>, except that the response to a
  \<open>HEAD\<close> request carries no body.
\<close>

theorem unhandled_request_405:
  "dispatch (butlast (app env pkg)) req = Unhandled req' \<and> decodable (path req') \<longrightarrow>
   dispatch (app env pkg) req
     = Answered
         \<lparr>status = 405,
          body = (if http_method req' = ''HEAD'' then None
                  else Some (JObj [(''error'', JStr ''Method not allowed'')]))\<rparr>"
proof -
  have "dispatch (app env pkg) req
          = (case dispatch (butlast (app env pkg)) req of
               Unhandled req' \<Rightarrow> dispatch [App_all_star unavailable_route] req'
             | Answered res \<Rightarrow> Answered res
             | Failed code \<Rightarrow> Failed code)"
    using dispatch_append [of "butlast (app env pkg)" "[App_all_star unavailable_route]" req]
      app_butlast [of env pkg]
    by simp
  then show ?thesis
    by (simp add: sent_def unavailable_route_def)
qed

text \<open>
  A router whose only route is \<open>/api/v1/teams\<close> and middleware that hands every request
  on: a \<open>PATCH\<close> of \<open>/api/v1/nothing\<close>, and a \<open>HEAD\<close> of \<open>/nowhere\<close>.
\<close>

theorem unhandled_request_405_witness:
  "dispatch
     (butlast (app \<lparr>NODE_ENV = Some ''development''\<rparr>
        \<lparr>cors = Next, morgan = Next, express_urlencoded = Next, express_json = Next,
          router = (\<lambda>r. if path r = ''/api/v1/teams''
                          then Reply \<lparr>status = 200, body = Some (JArr [])\<rparr> else Next r)\<rparr>))
     \<lparr>http_method = ''PATCH'', path = ''/api/v1/nothing'', user = None :: string option,
       session = None :: (string, unit) session_scheme option\<rparr>
     = Unhandled
         \<lparr>http_method = ''PATCH'', path = ''/api/v1/nothing'', user = None, session = None\<rparr>
   \<and> decodable ''/api/v1/nothing''
   \<and> dispatch
     (app \<lparr>NODE_ENV = Some ''development''\<rparr>
        \<lparr>cors = Next, morgan = Next, express_urlencoded = Next, express_json = Next,
          router = (\<lambda>r. if path r = ''/api/v1/teams''
                          then Reply \<lparr>status = 200, body = Some (JArr [])\<rparr> else Next r)\<rparr>)
     \<lparr>http_method = ''PATCH'', path = ''/api/v1/nothing'', user = None :: string option,
       session = None :: (string, unit) session_scheme option\<rparr>
     = Answered
         \<lparr>status = 405, body = Some (JObj [(''error'', JStr ''Method not allowed'')])\<rparr>
   \<and> dispatch
     (butlast (app \<lparr>NODE_ENV = Some ''development''\<rparr>
        \<lparr>cors = Next, morgan = Next, express_urlencoded = Next, express_json = Next,
          router = (\<lambda>r. if path r = ''/api/v1/teams''
                          then Reply \<lparr>status = 200, body = Some (JArr [])\<rparr> else Next r)\<rparr>))
     \<lparr>http_method = ''HEAD'', path = ''/nowhere'', user = None :: string option,
       session = None :: (string, unit) session_scheme option\<rparr>
     = Unhandled
         \<lparr>http_method = ''HEAD'', path = ''/nowhere'', user = None, session = None\<rparr>
   \<and> decodable ''/nowhere''
   \<and> dispatch
     (app \<lparr>NODE_ENV = Some ''development''\<rparr>
        \<lparr>cors = Next, morgan = Next, express_urlencoded = Next, express_json = Next,
          router = (\<lambda>r. if path r = ''/api/v1/teams''
                          then Reply \<lparr>status = 200, body = Some (JArr [])\<rparr> else Next r)\<rparr>)
     \<lparr>http_method = ''HEAD'', path = ''/nowhere'', user = None :: string option,
       session = None :: (string, unit) session_scheme option\<rparr>
     = Answered \<lparr>status = 405, body = None\<rparr>"
  using unhandled_request_405
    [where env = "\<lparr>NODE_ENV = Some ''development''\<rparr>"
       and pkg = "\<lparr>cors = Next, morgan = Next, express_urlencoded = Next, express_json = Next,
          router = (\<lambda>r. if path r = ''/api/v1/teams''
                          then Reply \<lparr>status = 200, body = Some (JArr [])\<rparr> else Next r)\<rparr>"
       and req = "\<lparr>http_method = ''PATCH'', path = ''/api/v1/nothing'', user = None :: string option,
       session = None :: (string, unit) session_scheme option\<rparr>"
       and req' = "\<lparr>http_method = ''PATCH'', path = ''/api/v1/nothing'', user = None :: string option,
       session = None :: (string, unit) session_scheme option\<rparr>"]
    unhandled_request_405
    [where env = "\<lparr>NODE_ENV = Some ''development''\<rparr>"
       and pkg = "\<lparr>cors = Next, morgan = Next, express_urlencoded = Next, express_json = Next,
          router = (\<lambda>r. if path r = ''/api/v1/teams''
                          then Reply \<lparr>status = 200, body = Some (JArr [])\<rparr> else Next r)\<rparr>"
       and req = "\<lparr>http_method = ''HEAD'', path = ''/nowhere'', user = None :: string option,
       session = None :: (string, unit) session_scheme option\<rparr>"
       and req' = "\<lparr>http_method = ''HEAD'', path = ''/nowhere'', user = None :: string option,
       session = None :: (string, unit) session_scheme option\<rparr>"]
  by (simp add: app_def mounted_at_def lower_char_def sent_def unavailable_route_def)

text \<open>
  The claim as it was stated, for every request that matches no registered route, fails
  for an \<open>OPTIONS\<close> request. The middleware \<open>cors()\<close>, built with no options as the
  application does, ends every \<open>OPTIONS\<close> request itself, with status 204 and no body,
  and hands every other request on; it is registered first. Here no route is registered
  at all (the router hands every request on), and the request still gets 204, not 405.
\<close>

theorem preflight_counterexample:
  "dispatch
     (app \<lparr>NODE_ENV = Some ''production''\<rparr>
        \<lparr>cors = (\<lambda>r. if http_method r = ''OPTIONS''
                        then Reply \<lparr>status = 204, body = None\<rparr> else Next r),
          morgan = Next, express_urlencoded = Next, express_json = Next, router = Next\<rparr>)
     \<lparr>http_method = ''OPTIONS'', path = ''/nowhere'', user = None :: string option,
       session = None :: (string, unit) session_scheme option\<rparr>
     = Answered \<lparr>status = 204, body = None\<rparr>
   \<and> \<lparr>status = 204, body = None\<rparr>
       \<noteq> \<lparr>status = 405, body = Some (JObj [(''error'', JStr ''Method not allowed'')])\<rparr>"
  by (simp add: app_def mounted_at_def)

text \<open>
  Nor does it hold whatever the path: a \<open>GET\<close> of \<open>/%\<close>, which every layer ahead hands
  on, fails in the last layer, and the framework answers 400.
\<close>

lemma malformed_escape_400:
  "dispatch
     (app \<lparr>NODE_ENV = Some ''production''\<rparr>
        \<lparr>cors = Next, morgan = Next, express_urlencoded = Next, express_json = Next,
          router = Next\<rparr>)
     \<lparr>http_method = ''GET'', path = ''/%'', user = None :: string option,
       session = None :: (string, unit) session_scheme option\<rparr>
     = Failed 400"
  by (simp add: app_def mounted_at_def)

section \<open>Server errors\<close>

text \<open>
  C8. For every error value \<open>e\<close>, \<open>serverError\<close> answers with status 500. When
  \<open>NODE_ENV\<close> is \<open>production\<close> the message is one fixed sentence, the same for
  every \<open>e\<close>; in every other environment (the variable unset included) the message
  is \<open>e\<close> itself.
\<close>

theorem serverError_message:
  "status (serverError env e) = 500
   \<and> (NODE_ENV env = Some ''production'' \<longrightarrow>
        body_member (serverError env e) ''message''
          = Some (JStr ''Your request could not be processed at this time. Kindly try again later.'')
        \<and> serverError env e = serverError env e')
   \<and> (NODE_ENV env \<noteq> Some ''production'' \<longrightarrow>
        body_member (serverError env e) ''message'' = Some e)"
  by (simp add: serverError_def member_def body_member_def)

theorem serverError_message_witness:
  "NODE_ENV \<lparr>NODE_ENV = Some ''production''\<rparr> = Some ''production''
   \<and> status (serverError \<lparr>NODE_ENV = Some ''production''\<rparr> (JStr ''E11000 duplicate key'')) = 500
   \<and> body_member (serverError \<lparr>NODE_ENV = Some ''production''\<rparr> (JStr ''E11000 duplicate key''))
        ''message''
        = Some (JStr ''Your request could not be processed at this time. Kindly try again later.'')
   \<and> serverError \<lparr>NODE_ENV = Some ''production''\<rparr> (JStr ''E11000 duplicate key'')
        = serverError \<lparr>NODE_ENV = Some ''production''\<rparr> JNull
   \<and> NODE_ENV \<lparr>NODE_ENV = Some ''development''\<rparr> \<noteq> Some ''production''
   \<and> status (serverError \<lparr>NODE_ENV = Some ''development''\<rparr> (JStr ''E11000 duplicate key'')) = 500
   \<and> body_member (serverError \<lparr>NODE_ENV = Some ''development''\<rparr> (JStr ''E11000 duplicate key''))
        ''message''
        = Some (JStr ''E11000 duplicate key'')"
  using serverError_message
          [of "\<lparr>NODE_ENV = Some ''production''\<rparr>" "JStr ''E11000 duplicate key''" JNull]
        serverError_message
          [of "\<lparr>NODE_ENV = Some ''development''\<rparr>" "JStr ''E11000 duplicate key''" JNull]
  by (simp add: serverError_def member_def body_member_def)

section \<open>What the lookups ask the store\<close>






end
